theory Spec2Isabelle
  imports Main "HOL-Library.AList"
begin

section \<open>Strings as the JavaScript source uses them\<close>

text \<open>
  A JavaScript string is modelled as \<open>string\<close>, a list of characters with codes
  below 256. \<open>\d\<close> is one of the ten decimal digits. The whitespace of \<open>\s\<close> and
  of \<open>trim()\<close> is, among those characters, the tab, line feed, vertical tab, form
  feed, carriage return, space and no-break space (code 160).
\<close>

definition is_digit :: "char \<Rightarrow> bool" where
  "is_digit c = (c \<in> set ''0123456789'')"

definition is_space :: "char \<Rightarrow> bool" where
  "is_space c = (c = CHR '' '' \<or> c = CHR 0x09 \<or> c = CHR 0x0A \<or> c = CHR 0x0B
                 \<or> c = CHR 0x0C \<or> c = CHR 0x0D \<or> c = CHR 0xA0)"

text \<open>\<open>s.trim()\<close>: whitespace removed at both ends.\<close>

definition trim :: "string \<Rightarrow> string" where
  "trim s = rev (dropWhile is_space (rev (dropWhile is_space s)))"

section \<open>Field Normalizer: \<open>formatPhone\<close>\<close>

text \<open>
  \<^verbatim>\<open>
  export const formatPhone = (phone) => {
    if (!phone) return '';
    const cleaned = phone.toString().replace(/\D/g, '');
    if (cleaned.length === 10) {
      return cleaned.replace(/(\d{3})(\d{3})(\d{4})/, '($1) $2-$3');
    }
    return phone;
  };
  \<close>
  On a string of exactly ten digits the pattern matches the whole string, so the
  replacement is the three groups laid out in the template.
\<close>

definition formatPhone :: "string \<Rightarrow> string" where
  "formatPhone phone =
     (if phone = [] then []
      else let cleaned = filter is_digit phone in
        if length cleaned = 10
        then ''('' @ take 3 cleaned @ '') '' @ take 3 (drop 3 cleaned) @ ''-'' @ drop 6 cleaned
        else phone)"

text \<open>The display format \<open>(XXX) XXX-XXXX\<close> of the specification, every X a digit.\<close>

fun phone_display_format :: "string \<Rightarrow> bool" where
  "phone_display_format [p, a, b, c, q, s, d, e, f, h, w, x, y, z] =
     (p = CHR ''('' \<and> is_digit a \<and> is_digit b \<and> is_digit c \<and> q = CHR '')'' \<and> s = CHR '' ''
      \<and> is_digit d \<and> is_digit e \<and> is_digit f \<and> h = CHR ''-''
      \<and> is_digit w \<and> is_digit x \<and> is_digit y \<and> is_digit z)"
| "phone_display_format _ = False"

section \<open>Field Normalizer: \<open>formatContact\<close>\<close>

text \<open>
  A RawRecord is a JavaScript object whose keys are the header names of the CSV and
  whose values are strings. It is modelled as an association list in insertion order;
  \<open>contact.Key\<close> is \<open>map_of contact ''Key''\<close>, which is \<open>None\<close> where JavaScript
  gives \<open>undefined\<close>: none of the keys the code reads is a property of the object
  prototype, so a read finds the record's own field or nothing. (JavaScript enumerates keys that are array indices before the
  others; the code reads a record by key and counts its keys, and never depends on
  their order.)
\<close>

type_synonym raw_record = "(string \<times> string) list"

text \<open>
  \<open>a || b\<close> on a possibly undefined string \<open>a\<close>: the value of \<open>a\<close> when it is
  truthy (defined and not the empty string), else \<open>b\<close>.
\<close>

fun js_or :: "string option \<Rightarrow> string \<Rightarrow> string" where
  "js_or None d = d"
| "js_or (Some v) d = (if v = [] then d else v)"

text \<open>The truth value of a possibly undefined string in a condition.\<close>

fun truthy :: "string option \<Rightarrow> bool" where
  "truthy None = False"
| "truthy (Some v) = (v \<noteq> [])"

text \<open>
  The canonical Contact. The fields carry the prefix \<open>c_\<close> (\<open>id\<close>, \<open>zip\<close> and others
  are constants of the library); \<open>c_original\<close> is the field \<open>_original\<close>.
\<close>

record contact =
  c_id :: string
  c_name :: string
  c_email :: string
  c_phone :: string
  c_company :: string
  c_address :: string
  c_city :: string
  c_state :: string
  c_country :: string
  c_zip :: string
  c_balance :: string
  c_original :: raw_record

definition getName :: "raw_record \<Rightarrow> string" where
  "getName contact =
     js_or (map_of contact ''Name'')
       (js_or (map_of contact ''name'')
         (js_or (map_of contact ''Company_name'')
           (js_or (map_of contact ''Company name'')
             (js_or (map_of contact ''company'') ''Unknown Contact''))))"

definition getCompany :: "raw_record \<Rightarrow> string" where
  "getCompany contact =
     js_or (map_of contact ''Company_name'')
       (js_or (map_of contact ''Company name'')
         (js_or (map_of contact ''company'')
           (js_or (map_of contact ''organisation'')
             (js_or (map_of contact ''Company'') []))))"

definition getEmail :: "raw_record \<Rightarrow> string" where
  "getEmail contact =
     js_or (map_of contact ''Email'')
       (js_or (map_of contact ''email'')
         (js_or (map_of contact ''Email_Address'') []))"

definition getPhone :: "raw_record \<Rightarrow> string" where
  "getPhone contact =
     formatPhone
       (js_or (map_of contact ''Phone'')
         (js_or (map_of contact ''phone'')
           (js_or (map_of contact ''mobile'')
             (js_or (map_of contact ''telephone'') []))))"

definition getAddress :: "raw_record \<Rightarrow> string" where
  "getAddress contact =
     js_or (map_of contact ''Street_Address'')
       (js_or (map_of contact ''Street Address'')
         (js_or (map_of contact ''address'')
           (js_or (map_of contact ''Address'') [])))"

definition getCity :: "raw_record \<Rightarrow> string" where
  "getCity contact = js_or (map_of contact ''City'') (js_or (map_of contact ''city'') [])"

definition getState :: "raw_record \<Rightarrow> string" where
  "getState contact =
     js_or (map_of contact ''State'')
       (js_or (map_of contact ''state'')
         (js_or (map_of contact ''province'') []))"

definition getCountry :: "raw_record \<Rightarrow> string" where
  "getCountry contact =
     js_or (map_of contact ''Country'') (js_or (map_of contact ''country'') [])"

definition getBalance :: "raw_record \<Rightarrow> string" where
  "getBalance contact =
     js_or (map_of contact ''Open_balance'')
       (js_or (map_of contact ''Open balance'')
         (js_or (map_of contact ''balance'') []))"

text \<open>\<open>s.replace(/\s/g, '_')\<close>: every whitespace character becomes an underscore.\<close>

definition replace_spaces :: "string \<Rightarrow> string" where
  "replace_spaces s = map (\<lambda>c. if is_space c then CHR ''_'' else c) s"

definition formatContact :: "raw_record \<Rightarrow> contact" where
  "formatContact contact =
     \<lparr> c_id = js_or (map_of contact ''id'')
                (replace_spaces (getName contact @ ''_'' @ getEmail contact)),
       c_name = getName contact,
       c_email = getEmail contact,
       c_phone = getPhone contact,
       c_company = getCompany contact,
       c_address = getAddress contact,
       c_city = getCity contact,
       c_state = getState contact,
       c_country = getCountry contact,
       c_zip = js_or (map_of contact ''Zip'')
                 (js_or (map_of contact ''zip'')
                   (js_or (map_of contact ''postal_code'') [])),
       c_balance = getBalance contact,
       c_original = contact \<rparr>"

text \<open>
  The filter of \<open>getContacts\<close> on normalized contacts:
  \<^verbatim>\<open>contact.name !== 'Unknown Contact' || contact.email || contact.phone || contact.company\<close>
\<close>

definition contact_valid :: "contact \<Rightarrow> bool" where
  "contact_valid c =
     (c_name c \<noteq> ''Unknown Contact'' \<or> c_email c \<noteq> [] \<or> c_phone c \<noteq> [] \<or> c_company c \<noteq> [])"

section \<open>Errors\<close>

text \<open>
  Every \<open>throw\<close> and every rejected promise of the source is a value of this type; a
  function that can throw returns \<open>error + 'a\<close> with \<open>Inl\<close> for the error. The
  specification's \<open>FetchError\<close> is \<open>FetchExhausted\<close>; its \<open>ParseError\<close> is
  \<open>AllStrategiesFailed\<close> (and \<open>InsufficientLines\<close> from the manual parser itself).
\<close>

datatype error =
    HttpError nat
  | BodyTooSmall
  | NetworkError
  | FetchExhausted nat error
  | InsufficientLines
  | AllStrategiesFailed
  | CacheDownloadFailed
  | AlternativeFetchFailed nat
  | ProxyFailed
  | UnexpectedError

section \<open>Line-Level Parser: \<open>manualCSVParse\<close>\<close>

definition dquote :: char where
  "dquote = CHR 0x22"

definition newline :: char where
  "newline = CHR 0x0A"

text \<open>\<open>s.split(d)\<close> for a one-character separator; the empty string gives one empty piece.\<close>

fun split_on :: "char \<Rightarrow> string \<Rightarrow> string list" where
  "split_on d [] = [[]]"
| "split_on d (c # cs) =
     (if c = d then [] # split_on d cs
      else (case split_on d cs of
              [] \<Rightarrow> [[c]]
            | w # ws \<Rightarrow> (c # w) # ws))"

text \<open>\<open>s.replace(/\s+/g, '_')\<close>: every maximal run of whitespace becomes one underscore.\<close>

function collapse_ws :: "string \<Rightarrow> string" where
  "collapse_ws [] = []"
| "collapse_ws (c # cs) =
     (if is_space c then CHR ''_'' # collapse_ws (dropWhile is_space cs)
      else c # collapse_ws cs)"
  by pat_completeness auto
termination
  by (relation "measure length") (auto simp: le_imp_less_Suc length_dropWhile_le)

text \<open>
  The header transformation of the manual parser,
  \<^verbatim>\<open>h.replace(/"/g, '').trim().replace(/\s+/g, '_')\<close>,
  and the one given to the library as \<open>transformHeader\<close>,
  \<^verbatim>\<open>header.trim().replace(/\s+/g, '_')\<close>.
\<close>

definition manual_header :: "string \<Rightarrow> string" where
  "manual_header h = collapse_ws (trim (filter (\<lambda>c. c \<noteq> dquote) h))"

definition transformHeader :: "string \<Rightarrow> string" where
  "transformHeader header = collapse_ws (trim header)"

text \<open>\<open>s.replace(/^"|"$/g, '')\<close>: a leading and a trailing double quote are removed.\<close>

definition strip_quotes :: "string \<Rightarrow> string" where
  "strip_quotes s =
     (let s1 = (case s of [] \<Rightarrow> [] | c # cs \<Rightarrow> if c = dquote then cs else s)
      in if s1 \<noteq> [] \<and> last s1 = dquote then butlast s1 else s1)"

text \<open>
  The inner loop over the characters of one line, with its three variables
  \<open>values\<close>, \<open>current\<close> and \<open>inQuotes\<close>; the last equation is the push after the
  loop.
  \<^verbatim>\<open>
  if (char === '"') { inQuotes = !inQuotes; }
  else if (char === ',' && !inQuotes) {
    values.push(current.trim().replace(/^"|"$/g, '')); current = '';
  } else { current += char; }
  \<close>
\<close>

fun tokenize :: "string \<Rightarrow> string list \<Rightarrow> string \<Rightarrow> bool \<Rightarrow> string list" where
  "tokenize [] values current inQuotes = values @ [strip_quotes (trim current)]"
| "tokenize (c # line) values current inQuotes =
     (if c = dquote then tokenize line values current (\<not> inQuotes)
      else if c = CHR '','' \<and> \<not> inQuotes
        then tokenize line (values @ [strip_quotes (trim current)]) [] inQuotes
      else tokenize line values (current @ [c]) inQuotes)"

text \<open>
  \<^verbatim>\<open>
  const contact = {};
  for (let k = 0; k < Math.min(headers.length, values.length); k++) {
    contact[headers[k]] = values[k] || '';
  }
  \<close>
  An assignment to a key the object already has replaces its value in place; a new key
  is added at the end (\<open>AList.update\<close>). The key \<open>__proto__\<close> is the one exception:
  on a plain object the assignment of a string to it goes to the setter of the
  prototype, which ignores a value that is not an object, and the object gets no key.
\<close>

definition build_contact :: "string list \<Rightarrow> string list \<Rightarrow> raw_record" where
  "build_contact headers values =
     fold (\<lambda>(h, v) contact.
             if h = ''__proto__'' then contact
             else AList.update h (js_or (Some v) []) contact)
       (zip headers values) []"

text \<open>
  \<^verbatim>\<open>if (contact.Name || contact.Email || contact.Phone || contact['Company_name'])\<close>
\<close>

definition manual_accept :: "raw_record \<Rightarrow> bool" where
  "manual_accept contact =
     (truthy (map_of contact ''Name'') \<or> truthy (map_of contact ''Email'')
      \<or> truthy (map_of contact ''Phone'') \<or> truthy (map_of contact ''Company_name''))"

text \<open>
  The loop over the data lines. The \<open>try\<close> around one line guards code that cannot
  throw on strings, so no line is skipped for an error.
\<close>

fun manual_rows :: "string list \<Rightarrow> string list \<Rightarrow> raw_record list" where
  "manual_rows headers [] = []"
| "manual_rows headers (l # ls) =
     (let line = trim l in
      if line = [] then manual_rows headers ls
      else let contact = build_contact headers (tokenize line [] [] False) in
        if manual_accept contact then contact # manual_rows headers ls
        else manual_rows headers ls)"

definition manual_headers :: "string \<Rightarrow> string list" where
  "manual_headers csvText =
     map manual_header (split_on CHR '','' (trim (hd (split_on newline csvText))))"

definition manualCSVParse :: "string \<Rightarrow> error + raw_record list" where
  "manualCSVParse csvText =
     (let lines = split_on newline csvText in
      if length lines < 2 then Inl InsufficientLines
      else Inr (manual_rows (manual_headers csvText) (tl lines)))"

section \<open>Structured Parser: \<open>parseCSVWithFallbacks\<close>\<close>

text \<open>
  The CSV library (\<open>Papa.parse\<close>) is not part of the repository: what it makes of a
  text under a configuration is a parameter \<open>papa\<close> of the model. It either completes
  with its rows (\<open>results.data\<close>) or fails (the \<open>error\<close> callback, or an exception
  inside the promise), which rejects the promise of that strategy.
\<close>

datatype strategy = EnhancedStandard | Relaxed | Manual

datatype papa_outcome = PapaComplete "raw_record list" | PapaFailed

type_synonym papa_parse = "strategy \<Rightarrow> string \<Rightarrow> papa_outcome"

definition strategies :: "strategy list" where
  "strategies = [EnhancedStandard, Relaxed, Manual]"

text \<open>\<open>contact.Key && contact.Key.trim() !== ''\<close>\<close>

definition hasField :: "raw_record \<Rightarrow> string \<Rightarrow> bool" where
  "hasField contact key =
     (case map_of contact key of
        None \<Rightarrow> False
      | Some v \<Rightarrow> v \<noteq> [] \<and> trim v \<noteq> [])"

text \<open>\<open>Object.keys(contact)\<close>: an object has each key once.\<close>

definition keys :: "raw_record \<Rightarrow> string list" where
  "keys contact = remdups (map fst contact)"

text \<open>
  The filter that selects \<open>validContacts\<close>:
  \<^verbatim>\<open>keys.length > 1 && (hasName || hasEmail || hasPhone || hasCompany)\<close>
\<close>

definition validContact :: "raw_record \<Rightarrow> bool" where
  "validContact contact =
     (length (keys contact) > 1
      \<and> (hasField contact ''Name'' \<or> hasField contact ''Email''
         \<or> hasField contact ''Phone'' \<or> hasField contact ''Company_name''))"

text \<open>
  The loop over the strategies: a strategy that throws, or whose promise is rejected
  (no valid contact, or the library failed), is left for the next one; the manual
  strategy returns whatever \<open>manualCSVParse\<close> returns.
\<close>

fun try_strategies :: "papa_parse \<Rightarrow> string \<Rightarrow> strategy list \<Rightarrow> error + raw_record list" where
  "try_strategies papa csvText [] = Inl AllStrategiesFailed"
| "try_strategies papa csvText (s # ss) =
     (if s = Manual then
        (case manualCSVParse csvText of
           Inr contacts \<Rightarrow> Inr contacts
         | Inl e \<Rightarrow> try_strategies papa csvText ss)
      else
        (case papa s csvText of
           PapaComplete data \<Rightarrow>
             (let validContacts = filter validContact data in
              if length validContacts = 0 then try_strategies papa csvText ss
              else Inr validContacts)
         | PapaFailed \<Rightarrow> try_strategies papa csvText ss))"

definition parseCSVWithFallbacks :: "papa_parse \<Rightarrow> string \<Rightarrow> error + raw_record list" where
  "parseCSVWithFallbacks papa csvText = try_strategies papa csvText strategies"

text \<open>
  A library strategy fails when the library fails or none of its rows is valid.
\<close>

definition papa_strategy_fails :: "papa_parse \<Rightarrow> strategy \<Rightarrow> string \<Rightarrow> bool" where
  "papa_strategy_fails p s csvText =
     (case p s csvText of PapaFailed \<Rightarrow> True | PapaComplete data \<Rightarrow> filter validContact data = [])"

section \<open>Bundled sample data: \<open>loadLocalCSV\<close>\<close>

text \<open>
  The constant text of \<open>loadLocalCSV\<close>, and the rows its promise resolves with: the
  header-mode parse of that text, one row for each of its five data lines, keyed by
  the six header names. The promise has no rejecting path. (The repository's own
  line-level parser reads the same rows from the text: \<open>manual_reads_localCSVData\<close>
  below.)
\<close>

definition localCSVData :: string where
  "localCSVData =
     ''Name,Company_name,Email,Phone,City,Country'' @ [newline] @
     ''John Doe,Tech Corp,john.doe@email.com,+1-555-0123,New York,USA'' @ [newline] @
     ''Jane Smith,Design Studio,jane.smith@email.com,+1-555-0124,Los Angeles,USA'' @ [newline] @
     ''Mike Johnson,Marketing Inc,mike.johnson@email.com,+1-555-0125,Chicago,USA'' @ [newline] @
     ''Sarah Wilson,Sales Co,sarah.wilson@email.com,+1-555-0126,Miami,USA'' @ [newline] @
     ''David Brown,Consulting Ltd,david.brown@email.com,+1-555-0127,Seattle,USA''"

definition sample_row :: "string \<Rightarrow> string \<Rightarrow> string \<Rightarrow> string \<Rightarrow> string \<Rightarrow> string \<Rightarrow> raw_record" where
  "sample_row n co e p ci cn =
     [(''Name'', n), (''Company_name'', co), (''Email'', e), (''Phone'', p), (''City'', ci),
      (''Country'', cn)]"

definition loadLocalCSV :: "raw_record list" where
  "loadLocalCSV =
     [sample_row ''John Doe'' ''Tech Corp'' ''john.doe@email.com'' ''+1-555-0123'' ''New York'' ''USA'',
      sample_row ''Jane Smith'' ''Design Studio'' ''jane.smith@email.com'' ''+1-555-0124'' ''Los Angeles'' ''USA'',
      sample_row ''Mike Johnson'' ''Marketing Inc'' ''mike.johnson@email.com'' ''+1-555-0125'' ''Chicago'' ''USA'',
      sample_row ''Sarah Wilson'' ''Sales Co'' ''sarah.wilson@email.com'' ''+1-555-0126'' ''Miami'' ''USA'',
      sample_row ''David Brown'' ''Consulting Ltd'' ''david.brown@email.com'' ''+1-555-0127'' ''Seattle'' ''USA'']"

section \<open>Network Fetcher: \<open>fetchCSVFromURL\<close>\<close>

text \<open>
  What the outside world answers is a parameter of the model. A \<open>fetch\<close> either
  rejects (no connection, or the abort after 15 seconds) or resolves with a response
  that has a status and a body; \<open>response.ok\<close> holds for the statuses 200 to 299.
  The proxy answers with JSON whose \<open>contents\<close> field is the text; \<open>None\<close> stands for
  a body with no text there (no strategy of the parser can read it).
\<close>

datatype http_outcome = NetworkFailure | HttpResponse nat string

datatype proxy_outcome = ProxyNetworkFailure | ProxyResponse nat "string option"

definition response_ok :: "nat \<Rightarrow> bool" where
  "response_ok status = (200 \<le> status \<and> status \<le> 299)"

text \<open>
  The environment of one call of \<open>getContacts\<close>: the configuration flag, the answer
  to the primary request at each attempt, the result of \<open>downloadAndCacheCSV\<close> (the
  durable cache), the answers to the request with other headers and to the proxy, and
  the CSV library. In the outer \<open>try\<close> of \<open>getContacts\<close> the load of the sample data
  and the normalization stand under no inner handler; nothing there throws on the
  records the parsers give, and \<open>unexpected\<close> is the error of a runtime that throws
  there all the same (\<open>None\<close> when it does not): the case the outer \<open>catch\<close> is
  written for.
\<close>

record env =
  useLocalCSV :: bool
  fetch_primary :: "nat \<Rightarrow> http_outcome"
  downloadAndCacheCSV :: "error + string"
  fetch_alternative :: http_outcome
  fetch_proxy :: proxy_outcome
  papa :: papa_parse
  unexpected :: "error option"

text \<open>
  What a call does to the outside is recorded as a list of events: a request of the
  primary URL with its attempt number, a wait in milliseconds, the three other
  acquisition requests, a run of the Structured Parser, a load of the sample data.
\<close>

datatype event =
    EvFetch nat
  | EvSleep nat
  | EvDownloadAndCache
  | EvAlternativeFetch
  | EvProxyFetch
  | EvParse
  | EvLoadLocal

definition maxAttempts :: nat where
  "maxAttempts = 3"

text \<open>
  The \<open>try\<close> block of one attempt up to the text of the response: a failed
  request, a response that is not \<open>ok\<close> and a body shorter than 100 characters all
  throw into the \<open>catch\<close>.
\<close>

definition fetch_attempt :: "env \<Rightarrow> nat \<Rightarrow> error + string" where
  "fetch_attempt e attempt =
     (case fetch_primary e attempt of
        NetworkFailure \<Rightarrow> Inl NetworkError
      | HttpResponse status csvText \<Rightarrow>
          if \<not> response_ok status then Inl (HttpError status)
          else if length csvText < 100 then Inl BodyTooSmall
          else Inr csvText)"

text \<open>
  \<open>fetchCSVFromURL(config.csvUrl, attempt)\<close>. The parser's promise is returned
  without \<open>await\<close>, so a parse error leaves the function as it is and is not
  retried. In the \<open>catch\<close>, \<open>retryDelay = attempt * 1000\<close> is waited before the
  next attempt, and only while \<open>attempt < maxAttempts\<close>.
\<close>

function fetchCSVFromURL :: "env \<Rightarrow> nat \<Rightarrow> (error + raw_record list) \<times> event list" where
  "fetchCSVFromURL e attempt =
     (case fetch_attempt e attempt of
        Inr csvText \<Rightarrow> (parseCSVWithFallbacks (papa e) csvText, [EvFetch attempt, EvParse])
      | Inl err \<Rightarrow>
          if attempt < maxAttempts
          then (case fetchCSVFromURL e (attempt + 1) of
                  (r, tr) \<Rightarrow> (r, EvFetch attempt # EvSleep (attempt * 1000) # tr))
          else (Inl (FetchExhausted maxAttempts err), [EvFetch attempt]))"
  by pat_completeness auto
termination
  by (relation "measure (\<lambda>(e, attempt). maxAttempts - attempt)") auto

declare fetchCSVFromURL.simps [simp del]

section \<open>Ingestion Orchestrator: \<open>getContacts\<close>\<close>

text \<open>The module-level variables \<open>cachedContacts\<close> and \<open>lastFetchTime\<close>.\<close>

record cache_state =
  cachedContacts :: "contact list option"
  lastFetchTime :: int

definition initial_state :: cache_state where
  "initial_state = \<lparr> cachedContacts = None, lastFetchTime = 0 \<rparr>"

definition CACHE_DURATION :: int where
  "CACHE_DURATION = 5 * 60 * 1000"

definition clearContactsCache :: "cache_state \<Rightarrow> cache_state" where
  "clearContactsCache st = st\<lparr> cachedContacts := None, lastFetchTime := 0 \<rparr>"

text \<open>The three acquisition stages after the primary one, each the body of one \<open>try\<close>.\<close>

definition stage_download_cache :: "env \<Rightarrow> (error + raw_record list) \<times> event list" where
  "stage_download_cache e =
     (case downloadAndCacheCSV e of
        Inl err \<Rightarrow> (Inl err, [EvDownloadAndCache])
      | Inr csvText \<Rightarrow> (parseCSVWithFallbacks (papa e) csvText, [EvDownloadAndCache, EvParse]))"

definition stage_alternative :: "env \<Rightarrow> (error + raw_record list) \<times> event list" where
  "stage_alternative e =
     (case fetch_alternative e of
        NetworkFailure \<Rightarrow> (Inl NetworkError, [EvAlternativeFetch])
      | HttpResponse status csvText \<Rightarrow>
          if response_ok status
          then (parseCSVWithFallbacks (papa e) csvText, [EvAlternativeFetch, EvParse])
          else (Inl (AlternativeFetchFailed status), [EvAlternativeFetch]))"

definition stage_proxy :: "env \<Rightarrow> (error + raw_record list) \<times> event list" where
  "stage_proxy e =
     (case fetch_proxy e of
        ProxyNetworkFailure \<Rightarrow> (Inl NetworkError, [EvProxyFetch])
      | ProxyResponse status contents \<Rightarrow>
          if response_ok status
          then (case contents of
                  None \<Rightarrow> (Inl AllStrategiesFailed, [EvProxyFetch, EvParse])
                | Some csvText \<Rightarrow>
                    (parseCSVWithFallbacks (papa e) csvText, [EvProxyFetch, EvParse]))
          else (Inl ProxyFailed, [EvProxyFetch]))"

text \<open>
  The nested \<open>try\<close>/\<open>catch\<close> ladder inside the outer \<open>try\<close>. Each \<open>catch\<close> goes on
  to the next stage; the last one loads the sample data.
\<close>

definition acquisition_ladder :: "env \<Rightarrow> (error + raw_record list) \<times> event list" where
  "acquisition_ladder e =
     (if useLocalCSV e then (Inr loadLocalCSV, [EvLoadLocal])
      else case fetchCSVFromURL e 1 of
        (Inr contacts, tr1) \<Rightarrow> (Inr contacts, tr1)
      | (Inl primaryError, tr1) \<Rightarrow>
          (case stage_download_cache e of
             (Inr contacts, tr2) \<Rightarrow> (Inr contacts, tr1 @ tr2)
           | (Inl cacheError, tr2) \<Rightarrow>
               (case stage_alternative e of
                  (Inr contacts, tr3) \<Rightarrow> (Inr contacts, tr1 @ tr2 @ tr3)
                | (Inl altError, tr3) \<Rightarrow>
                    (case stage_proxy e of
                       (Inr contacts, tr4) \<Rightarrow> (Inr contacts, tr1 @ tr2 @ tr3 @ tr4)
                     | (Inl proxyError, tr4) \<Rightarrow>
                         (Inr loadLocalCSV, tr1 @ tr2 @ tr3 @ tr4 @ [EvLoadLocal])))))"

text \<open>
  The body of the outer \<open>try\<close> up to the value of \<open>contacts\<close>: the ladder, left by
  the unexpected error if the environment has one.
\<close>

definition getContacts_try :: "env \<Rightarrow> (error + raw_record list) \<times> event list" where
  "getContacts_try e =
     (case acquisition_ladder e of
        (r, tr) \<Rightarrow>
          (case unexpected e of
             None \<Rightarrow> (r, tr)
           | Some err \<Rightarrow> (Inl err, tr)))"

text \<open>
  The rest of \<open>getContacts\<close>, given how the \<open>try\<close> body went. When it produced
  \<open>contacts\<close>: normalize, filter, store the list with \<open>now\<close> and return it. When an
  error left it (the outer \<open>catch\<close>): return the cached list if there is one, whatever
  its age, else the normalized sample data, not filtered and not stored.
\<close>

definition getContacts_finish ::
    "(error + raw_record list) \<times> event list \<Rightarrow> cache_state \<Rightarrow> int
       \<Rightarrow> (error + contact list) \<times> cache_state \<times> event list" where
  "getContacts_finish attempt st now =
     (case attempt of
        (Inr contacts, tr) \<Rightarrow>
          (let formattedContacts = filter contact_valid (map formatContact contacts) in
           (Inr formattedContacts,
            st\<lparr> cachedContacts := Some formattedContacts, lastFetchTime := now \<rparr>, tr))
      | (Inl err, tr) \<Rightarrow>
          (case cachedContacts st of
             Some cached \<Rightarrow> (Inr cached, st, tr)
           | None \<Rightarrow> (Inr (map formatContact loadLocalCSV), st, tr @ [EvLoadLocal])))"

text \<open>
  \<^verbatim>\<open>if (!forceRefresh && cachedContacts && (now - lastFetchTime) < CACHE_DURATION)\<close>
  An array, also an empty one, is truthy; \<open>null\<close> is not.
\<close>

definition cache_hit :: "cache_state \<Rightarrow> int \<Rightarrow> bool \<Rightarrow> bool" where
  "cache_hit st now forceRefresh =
     (\<not> forceRefresh \<and> cachedContacts st \<noteq> None \<and> now - lastFetchTime st < CACHE_DURATION)"

text \<open>
  \<open>getContacts(forceRefresh)\<close> called at time \<open>now = Date.now()\<close> in state \<open>st\<close>:
  the returned list (or the error thrown), the state afterwards and the events.
\<close>

definition getContacts ::
    "env \<Rightarrow> cache_state \<Rightarrow> int \<Rightarrow> bool \<Rightarrow> (error + contact list) \<times> cache_state \<times> event list" where
  "getContacts e st now forceRefresh =
     (if cache_hit st now forceRefresh then (Inr (the (cachedContacts st)), st, [])
      else getContacts_finish (getContacts_try e) st now)"

text \<open>
  The states the module can be in: it starts with no snapshot; every call of
  \<open>getContacts\<close> (in any environment, at any time) and every call of
  \<open>clearContactsCache\<close> leads to another one. The rule \<open>unexpected\<close> is a call whose
  \<open>try\<close> body was left by an error.
\<close>

inductive reachable :: "cache_state \<Rightarrow> bool" where
  start: "reachable initial_state"
| call: "reachable st \<Longrightarrow> getContacts e st now forceRefresh = (r, st', tr) \<Longrightarrow> reachable st'"
| unexpected: "reachable st \<Longrightarrow> \<not> cache_hit st now forceRefresh
     \<Longrightarrow> getContacts_finish (Inl err, tr0) st now = (r, st', tr) \<Longrightarrow> reachable st'"
| clear: "reachable st \<Longrightarrow> reachable (clearContactsCache st)"

text \<open>The waits and the primary requests among the events of a call.\<close>

fun total_backoff :: "event list \<Rightarrow> nat" where
  "total_backoff [] = 0"
| "total_backoff (EvSleep ms # tr) = ms + total_backoff tr"
| "total_backoff (ev # tr) = total_backoff tr"

fun sleeps :: "event list \<Rightarrow> nat list" where
  "sleeps [] = []"
| "sleeps (EvSleep ms # tr) = ms # sleeps tr"
| "sleeps (ev # tr) = sleeps tr"

fun attempts :: "event list \<Rightarrow> nat" where
  "attempts [] = 0"
| "attempts (EvFetch n # tr) = Suc (attempts tr)"
| "attempts (ev # tr) = attempts tr"

section \<open>Export: \<open>exportContacts\<close>\<close>

text \<open>
  \<^verbatim>\<open>
  const csv = Papa.unparse(contacts, {
    header: true,
    columns: ['name', 'company', 'email', 'phone', 'address', 'city', 'state',
              'country', 'zip', 'balance']
  });
  \<close>
  The library writes the text; it is a parameter \<open>unparse\<close>, given the columns and,
  for each contact, the row of its values under those columns.
\<close>

definition export_columns :: "string list" where
  "export_columns =
     [''name'', ''company'', ''email'', ''phone'', ''address'', ''city'', ''state'', ''country'',
      ''zip'', ''balance'']"

definition export_row :: "contact \<Rightarrow> raw_record" where
  "export_row c =
     [(''name'', c_name c), (''company'', c_company c), (''email'', c_email c),
      (''phone'', c_phone c), (''address'', c_address c), (''city'', c_city c),
      (''state'', c_state c), (''country'', c_country c), (''zip'', c_zip c),
      (''balance'', c_balance c)]"

type_synonym papa_unparse = "string list \<Rightarrow> raw_record list \<Rightarrow> string"

definition exportContacts_csv :: "papa_unparse \<Rightarrow> contact list \<Rightarrow> string" where
  "exportContacts_csv unparse contacts = unparse export_columns (map export_row contacts)"

text \<open>
  The library's output under its defaults, for concrete inputs: the empty text for no
  row at all; else a header line and one line for each row, joined by carriage return
  and line feed; the fields of a line
  joined by commas; a field that holds a comma, a double quote, a line break, or a
  space at either end is put in double quotes with its double quotes doubled.
\<close>

fun join :: "string \<Rightarrow> string list \<Rightarrow> string" where
  "join sep [] = []"
| "join sep [x] = x"
| "join sep (x # y # ys) = x @ sep @ join sep (y # ys)"

definition csv_field :: "string \<Rightarrow> string" where
  "csv_field v =
     (if (\<exists>c \<in> set v. c = CHR '','' \<or> c = dquote \<or> c = newline \<or> c = CHR 0x0D)
         \<or> (v \<noteq> [] \<and> (hd v = CHR '' '' \<or> last v = CHR '' ''))
      then [dquote] @ concat (map (\<lambda>c. if c = dquote then [dquote, dquote] else [c]) v) @ [dquote]
      else v)"

definition csv_unparse :: papa_unparse where
  "csv_unparse columns rows =
     (if rows = [] then []
      else join [CHR 0x0D, newline]
             (join '','' (map csv_field columns)
              # map (\<lambda>row. join '','' (map (\<lambda>k. csv_field (js_or (map_of row k) [])) columns))
                  rows))"

text \<open>
  Re-ingestion: the Structured Parser on a text, then the Normalizer on every record.
\<close>

definition reingest :: "papa_parse \<Rightarrow> string \<Rightarrow> error + contact list" where
  "reingest p csvText =
     (case parseCSVWithFallbacks p csvText of
        Inl err \<Rightarrow> Inl err
      | Inr rows \<Rightarrow> Inr (map formatContact rows))"

text \<open>Two contacts agree on the ten exported fields.\<close>

definition same_exported_fields :: "contact \<Rightarrow> contact \<Rightarrow> bool" where
  "same_exported_fields a b =
     (c_name a = c_name b \<and> c_company a = c_company b \<and> c_email a = c_email b
      \<and> c_phone a = c_phone b \<and> c_address a = c_address b \<and> c_city a = c_city b
      \<and> c_state a = c_state b \<and> c_country a = c_country b \<and> c_zip a = c_zip b
      \<and> c_balance a = c_balance b)"

text \<open>
  The specification's equality "on all canonical fields except \<open>_original\<close>": the ten
  exported fields and \<open>id\<close>.
\<close>

definition same_canonical :: "contact \<Rightarrow> contact \<Rightarrow> bool" where
  "same_canonical a b = (same_exported_fields a b \<and> c_id a = c_id b)"

section \<open>The specification's words\<close>

text \<open>
  The header names under which the Normalizer finds a name, an email address, a phone
  number or a company: the aliases of \<open>getName\<close>, \<open>getEmail\<close>, \<open>getPhone\<close> and
  \<open>getCompany\<close>.
\<close>

definition identifying_aliases :: "string list" where
  "identifying_aliases =
     [''Name'', ''name'', ''Company_name'', ''Company name'', ''company'', ''organisation'',
      ''Company'', ''Email'', ''email'', ''Email_Address'', ''Phone'', ''phone'', ''mobile'',
      ''telephone'']"

text \<open>A RawRecord with zero identifying fields populated.\<close>

definition no_identifying :: "raw_record \<Rightarrow> bool" where
  "no_identifying raw = list_all (\<lambda>k. \<not> truthy (map_of raw k)) identifying_aliases"

text \<open>
  The acceptance test as the specification words it: more than one populated field,
  and an identifying field that is non-empty under any of its aliases.
\<close>

definition populated_fields :: "raw_record \<Rightarrow> nat" where
  "populated_fields raw = length (filter (\<lambda>k. truthy (map_of raw k)) (keys raw))"

definition spec_acceptance :: "raw_record \<Rightarrow> bool" where
  "spec_acceptance raw =
     (populated_fields raw > 1 \<and> list_ex (\<lambda>k. truthy (map_of raw k)) identifying_aliases)"

text \<open>
  The round trip as the specification words it: the exported text, re-ingested, gives
  contacts equal to the originals on all canonical fields except \<open>_original\<close>.
\<close>

definition roundtrip_holds :: "papa_unparse \<Rightarrow> papa_parse \<Rightarrow> contact list \<Rightarrow> bool" where
  "roundtrip_holds unparse p contacts =
     (case reingest p (exportContacts_csv unparse contacts) of
        Inl err \<Rightarrow> False
      | Inr cs \<Rightarrow> list_all2 same_canonical cs contacts)"

text \<open>The four header names the code's two acceptance tests look at.\<close>

definition acceptance_keys :: "string list" where
  "acceptance_keys = [''Name'', ''Email'', ''Phone'', ''Company_name'']"

section \<open>Concrete inputs\<close>

text \<open>No connection at all: every request fails and the durable cache is empty.\<close>

definition offline_env :: env where
  "offline_env =
     \<lparr> useLocalCSV = False,
       fetch_primary = (\<lambda>attempt. NetworkFailure),
       downloadAndCacheCSV = Inl CacheDownloadFailed,
       fetch_alternative = NetworkFailure,
       fetch_proxy = ProxyNetworkFailure,
       papa = (\<lambda>s csvText. PapaFailed),
       unexpected = None \<rparr>"

text \<open>The same, with a runtime that throws in the outer \<open>try\<close>.\<close>

definition faulty_env :: env where
  "faulty_env = offline_env\<lparr> unexpected := Some UnexpectedError \<rparr>"


text \<open>The server answers every primary request with status 500.\<close>

definition server_error_env :: env where
  "server_error_env =
     offline_env\<lparr> fetch_primary := (\<lambda>attempt. HttpResponse 500 ''Internal Server Error'') \<rparr>"

text \<open>A feed with lower-case headers, and the row the library reads from it.\<close>

definition lowercase_row :: raw_record where
  "lowercase_row = [(''name'', ''John Doe''), (''email'', ''john@x.com'')]"

definition lowercase_feed :: string where
  "lowercase_feed = ''name,email'' @ [newline] @ ''John Doe,john@x.com'' @ [newline]"

definition papa_lowercase :: papa_parse where
  "papa_lowercase s csvText = PapaComplete [lowercase_row]"

text \<open>A record with two fields of which one is empty.\<close>

definition half_empty_row :: raw_record where
  "half_empty_row = [(''Name'', ''John Doe''), (''Email'', [])]"

text \<open>A data line shorter than the header row.\<close>

definition short_line_feed :: string where
  "short_line_feed = ''Name,Email'' @ [newline] @ ''John Doe''"

text \<open>One normalized contact, and the library reading its export back.\<close>

definition john :: contact where
  "john = formatContact [(''Name'', ''John Doe''), (''Email'', ''john@x.com'')]"

definition papa_reads_export :: papa_parse where
  "papa_reads_export s csvText = PapaComplete [export_row john]"

text \<open>A snapshot fifteen minutes old at time 900000.\<close>

definition stale_state :: cache_state where
  "stale_state = \<lparr> cachedContacts = Some [john], lastFetchTime = 0 \<rparr>"

text \<open>The invariant of the snapshot: every contact it holds passed the filter.\<close>

definition cache_ok :: "cache_state \<Rightarrow> bool" where
  "cache_ok st = (case cachedContacts st of None \<Rightarrow> True | Some cs \<Rightarrow> list_all contact_valid cs)"

section \<open>Properties of \<open>formatPhone\<close>\<close>

lemma length_ten_cases:
  assumes "length xs = 10"
  obtains a b c d e f g h i j where "xs = [a, b, c, d, e, f, g, h, i, j]"
proof -
  from assms have "length xs = Suc (Suc (Suc (Suc (Suc (Suc (Suc (Suc (Suc (Suc 0)))))))))"
    by simp
  then show thesis
    using that by (auto simp: length_Suc_conv)
qed

lemma formatPhone_ten_digits:
  assumes "length (filter is_digit phone) = 10"
  shows "phone_display_format (formatPhone phone)"
    and "filter is_digit (formatPhone phone) = filter is_digit phone"
proof -
  obtain a b c d e f g h i j where eq: "filter is_digit phone = [a, b, c, d, e, f, g, h, i, j]"
    using assms by (rule length_ten_cases)
  have "\<forall>x \<in> set (filter is_digit phone). is_digit x" by simp
  then have digs: "is_digit a" "is_digit b" "is_digit c" "is_digit d" "is_digit e"
    "is_digit f" "is_digit g" "is_digit h" "is_digit i" "is_digit j"
    unfolding eq by simp_all
  have ne: "phone \<noteq> []" using assms by auto
  have sep: "\<not> is_digit CHR ''(''" "\<not> is_digit CHR '')''" "\<not> is_digit CHR '' ''"
    "\<not> is_digit CHR ''-''"
    by (simp_all add: is_digit_def)
  show "phone_display_format (formatPhone phone)"
    using ne digs by (simp add: formatPhone_def eq)
  show "filter is_digit (formatPhone phone) = filter is_digit phone"
    using ne digs sep by (simp add: formatPhone_def eq)
qed

lemma formatPhone_other_count:
  assumes "length (filter is_digit phone) \<noteq> 10"
  shows "formatPhone phone = phone"
  using assms by (simp add: formatPhone_def)

text \<open>
  Claim C3. For every phone string that keeps exactly ten digits once its non-digit
  characters are stripped, \<open>formatPhone\<close> returns a string of the shape
  \<open>(XXX) XXX-XXXX\<close> made of those ten digits in order; for every phone string with any
  other digit count it returns its input unchanged.
\<close>

theorem formatPhone_spec:
  "(length (filter is_digit phone) = 10 \<longrightarrow>
      phone_display_format (formatPhone phone)
      \<and> filter is_digit (formatPhone phone) = filter is_digit phone)
   \<and> (length (filter is_digit phone) \<noteq> 10 \<longrightarrow> formatPhone phone = phone)"
  using formatPhone_ten_digits formatPhone_other_count by blast

theorem formatPhone_spec_witness:
  "length (filter is_digit ''555-123-4567'') = 10
   \<and> formatPhone ''555-123-4567'' = ''(555) 123-4567''
   \<and> phone_display_format (formatPhone ''555-123-4567'')
   \<and> length (filter is_digit ''+1-555-0123'') \<noteq> 10
   \<and> formatPhone ''+1-555-0123'' = ''+1-555-0123''"
proof -
  have ten: "length (filter is_digit ''555-123-4567'') = 10"
    by (simp add: is_digit_def)
  have other: "length (filter is_digit ''+1-555-0123'') \<noteq> 10"
    by (simp add: is_digit_def)
  have val: "formatPhone ''555-123-4567'' = ''(555) 123-4567''"
    by (simp add: formatPhone_def is_digit_def)
  from formatPhone_spec [of "''555-123-4567''"] ten
  have "phone_display_format (formatPhone ''555-123-4567'')" by blast
  moreover from formatPhone_spec [of "''+1-555-0123''"] other
  have "formatPhone ''+1-555-0123'' = ''+1-555-0123''" by blast
  ultimately show ?thesis using ten other val by blast
qed

section \<open>Properties of the Ingestion Orchestrator\<close>

lemma js_or_falsy: "\<not> truthy x \<Longrightarrow> js_or x d = d"
  by (cases x) auto

lemma acquisition_ladder_succeeds: "\<exists>contacts tr. acquisition_ladder e = (Inr contacts, tr)"
  by (auto simp: acquisition_ladder_def split: prod.splits sum.splits)

lemma getContacts_try_succeeds:
  "unexpected e = None \<Longrightarrow> \<exists>contacts tr. getContacts_try e = (Inr contacts, tr)"
  using acquisition_ladder_succeeds [of e] by (auto simp: getContacts_try_def)

lemma getContacts_try_escapes:
  "unexpected e = Some err \<Longrightarrow> \<exists>tr. getContacts_try e = (Inl err, tr)"
  by (simp add: getContacts_try_def split: prod.splits)

lemma getContacts_finish_returns: "\<exists>contacts. fst (getContacts_finish attempt st now) = Inr contacts"
  by (auto simp: getContacts_finish_def Let_def split: prod.splits sum.splits option.splits)

lemma getContacts_returns: "\<exists>contacts. fst (getContacts e st now forceRefresh) = Inr contacts"
  by (simp add: getContacts_def getContacts_finish_returns)

lemma getContacts_finish_error:
  "fst (getContacts_finish (Inl err, tr) st now) =
     Inr (case cachedContacts st of Some cached \<Rightarrow> cached | None \<Rightarrow> map formatContact loadLocalCSV)"
  by (simp add: getContacts_finish_def split: option.splits)

lemma fetchCSVFromURL_all_fail:
  assumes "\<And>n. fetch_attempt e n = Inl err"
  shows "fetchCSVFromURL e 1 =
   (Inl (FetchExhausted 3 err), [EvFetch 1, EvSleep 1000, EvFetch 2, EvSleep 2000, EvFetch 3])"
proof -
  have 3: "fetchCSVFromURL e 3 = (Inl (FetchExhausted 3 err), [EvFetch 3])"
    by (subst fetchCSVFromURL.simps) (simp add: assms maxAttempts_def)
  have 2: "fetchCSVFromURL e 2 = (Inl (FetchExhausted 3 err), [EvFetch 2, EvSleep 2000, EvFetch 3])"
    by (subst fetchCSVFromURL.simps) (simp add: assms maxAttempts_def 3)
  show ?thesis
    by (subst fetchCSVFromURL.simps) (simp add: assms maxAttempts_def 2 del: One_nat_def)
qed

lemma fetch_offline: "fetchCSVFromURL offline_env 1 =
   (Inl (FetchExhausted 3 NetworkError), [EvFetch 1, EvSleep 1000, EvFetch 2, EvSleep 2000, EvFetch 3])"
  by (rule fetchCSVFromURL_all_fail) (simp add: fetch_attempt_def offline_env_def)

lemma try_offline: "getContacts_try offline_env = (Inr loadLocalCSV,
   [EvFetch 1, EvSleep 1000, EvFetch 2, EvSleep 2000, EvFetch 3, EvDownloadAndCache, EvAlternativeFetch, EvProxyFetch, EvLoadLocal])"
proof -
  have local: "\<not> useLocalCSV offline_env"
    by (simp add: offline_env_def)
  have cache: "stage_download_cache offline_env = (Inl CacheDownloadFailed, [EvDownloadAndCache])"
    by (simp add: stage_download_cache_def offline_env_def)
  have alt: "stage_alternative offline_env = (Inl NetworkError, [EvAlternativeFetch])"
    by (simp add: stage_alternative_def offline_env_def)
  have proxy: "stage_proxy offline_env = (Inl NetworkError, [EvProxyFetch])"
    by (simp add: stage_proxy_def offline_env_def)
  have "acquisition_ladder offline_env = (Inr loadLocalCSV,
     [EvFetch 1, EvSleep 1000, EvFetch 2, EvSleep 2000, EvFetch 3, EvDownloadAndCache,
      EvAlternativeFetch, EvProxyFetch, EvLoadLocal])"
    by (simp add: acquisition_ladder_def local fetch_offline cache alt proxy del: One_nat_def)
  moreover have "unexpected offline_env = None"
    by (simp add: offline_env_def)
  ultimately show ?thesis
    by (simp add: getContacts_try_def del: One_nat_def)
qed

lemma sample_valid: "\<forall>c \<in> set (map formatContact loadLocalCSV). contact_valid c"
  by (simp add: loadLocalCSV_def sample_row_def formatContact_def contact_valid_def getName_def)

lemma no_identifying_invalid: "no_identifying raw \<Longrightarrow> \<not> contact_valid (formatContact raw)"
  by (simp add: no_identifying_def identifying_aliases_def contact_valid_def formatContact_def
      getName_def getEmail_def getPhone_def getCompany_def js_or_falsy formatPhone_def)

lemma finish_ok:
  assumes "cache_ok st" "getContacts_finish attempt st now = (r, st', tr)"
  shows "cache_ok st'" and "r = Inr contacts \<Longrightarrow> list_all contact_valid contacts"
  using assms sample_valid
  by (auto simp: getContacts_finish_def cache_ok_def Let_def list_all_iff
      split: prod.splits sum.splits option.splits)

lemma getContacts_ok:
  assumes "cache_ok st" "getContacts e st now forceRefresh = (r, st', tr)"
  shows "cache_ok st'" and "r = Inr contacts \<Longrightarrow> list_all contact_valid contacts"
proof -
  show "cache_ok st'"
  proof (cases "cache_hit st now forceRefresh")
    case True
    with assms show ?thesis by (simp add: getContacts_def)
  next
    case False
    with assms show ?thesis by (auto simp: getContacts_def intro: finish_ok(1))
  qed
  show "list_all contact_valid contacts" if "r = Inr contacts"
  proof (cases "cache_hit st now forceRefresh")
    case True
    with assms that show ?thesis
      by (auto simp: getContacts_def cache_hit_def cache_ok_def)
  next
    case False
    with assms that show ?thesis by (auto simp: getContacts_def intro: finish_ok(2))
  qed
qed

lemma reachable_cache_ok: "reachable st \<Longrightarrow> cache_ok st"
proof (induction rule: reachable.induct)
  case start
  show ?case by (simp add: cache_ok_def initial_state_def)
next
  case (call st e now forceRefresh r st' tr)
  then show ?case by (blast intro: getContacts_ok(1))
next
  case (unexpected st now forceRefresh err tr0 r st' tr)
  then show ?case by (blast intro: finish_ok(1))
next
  case (clear st)
  show ?case by (simp add: cache_ok_def clearContactsCache_def)
qed

lemma manual_reads_localCSVData: "manualCSVParse localCSVData = Inr loadLocalCSV"
  by code_simp

lemma getContacts_hit:
  assumes "cache_hit st now forceRefresh"
  shows "\<exists>cached. cachedContacts st = Some cached
           \<and> getContacts e st now forceRefresh = (Inr cached, st, [])"
  using assms by (auto simp: getContacts_def cache_hit_def)

lemma getContacts_escaped:
  assumes "\<not> cache_hit st now forceRefresh" "unexpected e = Some err"
  shows "fst (getContacts e st now forceRefresh) =
           Inr (case cachedContacts st of
                  Some cached \<Rightarrow> cached
                | None \<Rightarrow> map formatContact loadLocalCSV)"
    and "fst (snd (getContacts e st now forceRefresh)) = st"
proof -
  obtain tr where "getContacts_try e = (Inl err, tr)"
    using getContacts_try_escapes [OF assms(2)] by blast
  then show "fst (getContacts e st now forceRefresh) =
           Inr (case cachedContacts st of
                  Some cached \<Rightarrow> cached
                | None \<Rightarrow> map formatContact loadLocalCSV)"
    and "fst (snd (getContacts e st now forceRefresh)) = st"
    using assms(1) by (simp_all add: getContacts_def getContacts_finish_def split: option.splits)
qed

lemma getContacts_acquired:
  assumes "\<not> cache_hit st now forceRefresh" "unexpected e = None"
  shows "\<exists>raw tr. getContacts_try e = (Inr raw, tr)
           \<and> getContacts e st now forceRefresh =
               (Inr (filter contact_valid (map formatContact raw)),
                st\<lparr> cachedContacts := Some (filter contact_valid (map formatContact raw)),
                    lastFetchTime := now \<rparr>, tr)"
proof -
  obtain raw tr where "getContacts_try e = (Inr raw, tr)"
    using getContacts_try_succeeds [OF assms(2)] by blast
  then show ?thesis
    using assms(1) by (simp add: getContacts_def getContacts_finish_def Let_def)
qed

text \<open>
  Claim C1. For every environment (every outcome of the requests, of the durable cache
  and of the parser, with or without an error that escapes the acquisition chain),
  every state, time and \<open>forceRefresh\<close> flag, \<open>getContacts\<close> returns a list of
  contacts and throws nothing. On a fresh snapshot it returns the snapshot. Otherwise,
  when an error escapes the chain, it returns the previous snapshot if there is one,
  whatever its age, else the normalized sample data, and leaves the state as it was;
  when no error escapes, it returns the normalized, filtered records of the stage that
  succeeded. The outer \<open>catch\<close> returns that list whichever error reaches it.
\<close>

theorem getContacts_never_throws:
  "(\<exists>contacts. fst (getContacts e st now forceRefresh) = Inr contacts)
   \<and> (\<exists>contacts. fst (getContacts_finish attempt st now) = Inr contacts)
   \<and> fst (getContacts_finish (Inl err, tr) st now) =
       Inr (case cachedContacts st of
              Some cached \<Rightarrow> cached
            | None \<Rightarrow> map formatContact loadLocalCSV)
   \<and> (cache_hit st now forceRefresh \<longrightarrow>
        (\<exists>cached. cachedContacts st = Some cached
           \<and> getContacts e st now forceRefresh = (Inr cached, st, [])))
   \<and> (\<not> cache_hit st now forceRefresh \<and> unexpected e = Some err \<longrightarrow>
        fst (getContacts e st now forceRefresh) =
          Inr (case cachedContacts st of
                 Some cached \<Rightarrow> cached
               | None \<Rightarrow> map formatContact loadLocalCSV)
        \<and> fst (snd (getContacts e st now forceRefresh)) = st)
   \<and> (\<not> cache_hit st now forceRefresh \<and> unexpected e = None \<longrightarrow>
        (\<exists>raw tr'. getContacts_try e = (Inr raw, tr')
           \<and> getContacts e st now forceRefresh =
               (Inr (filter contact_valid (map formatContact raw)),
                st\<lparr> cachedContacts := Some (filter contact_valid (map formatContact raw)),
                    lastFetchTime := now \<rparr>, tr')))"
  using getContacts_returns [of e st now forceRefresh]
    getContacts_finish_returns [of attempt st now]
    getContacts_finish_error [of err tr st now]
    getContacts_hit [of st now forceRefresh e]
    getContacts_escaped [of st now forceRefresh e err]
    getContacts_acquired [of st now forceRefresh e]
  by blast

theorem getContacts_never_throws_witness:
  "\<not> cache_hit initial_state 0 False
   \<and> unexpected faulty_env = Some UnexpectedError
   \<and> fst (getContacts faulty_env initial_state 0 False) = Inr (map formatContact loadLocalCSV)
   \<and> \<not> cache_hit stale_state 900000 False
   \<and> fst (getContacts faulty_env stale_state 900000 False) = Inr [john]
   \<and> fst (snd (getContacts faulty_env stale_state 900000 False)) = stale_state
   \<and> unexpected offline_env = None
   \<and> fst (getContacts offline_env initial_state 0 False) = Inr (map formatContact loadLocalCSV)
   \<and> cache_hit stale_state 1000 False
   \<and> getContacts faulty_env stale_state 1000 False = (Inr [john], stale_state, [])"
proof -
  have m0: "\<not> cache_hit initial_state 0 False"
    by (simp add: cache_hit_def initial_state_def)
  have m1: "\<not> cache_hit stale_state 900000 False"
    by (simp add: cache_hit_def stale_state_def CACHE_DURATION_def)
  have h1: "cache_hit stale_state 1000 False"
    by (simp add: cache_hit_def stale_state_def CACHE_DURATION_def)
  have u: "unexpected faulty_env = Some UnexpectedError"
    by (simp add: faulty_env_def)
  have n: "unexpected offline_env = None"
    by (simp add: offline_env_def)
  have keep: "filter contact_valid (map formatContact loadLocalCSV) = map formatContact loadLocalCSV"
    using sample_valid by (simp add: filter_id_conv del: set_map)
  from getContacts_never_throws [of faulty_env initial_state 0 False _ UnexpectedError] m0 u
  have a: "fst (getContacts faulty_env initial_state 0 False) = Inr (map formatContact loadLocalCSV)"
    by (simp add: initial_state_def)
  from getContacts_never_throws [of faulty_env stale_state 900000 False _ UnexpectedError] m1 u
  have b: "fst (getContacts faulty_env stale_state 900000 False) = Inr [john]"
    "fst (snd (getContacts faulty_env stale_state 900000 False)) = stale_state"
    by (simp_all add: stale_state_def)
  from getContacts_never_throws [of offline_env initial_state 0 False] m0 n
  obtain raw tr' where "getContacts_try offline_env = (Inr raw, tr')"
    and "getContacts offline_env initial_state 0 False =
               (Inr (filter contact_valid (map formatContact raw)),
                initial_state\<lparr> cachedContacts := Some (filter contact_valid (map formatContact raw)),
                    lastFetchTime := 0 \<rparr>, tr')"
    by blast
  then have c: "fst (getContacts offline_env initial_state 0 False) = Inr (map formatContact loadLocalCSV)"
    by (simp add: try_offline keep del: One_nat_def)
  from getContacts_never_throws [of faulty_env stale_state 1000 False] h1
  have d: "getContacts faulty_env stale_state 1000 False = (Inr [john], stale_state, [])"
    by (auto simp: stale_state_def)
  from m0 m1 h1 u n a b c d show ?thesis by blast
qed

text \<open>
  Claim C2. In every state the module can reach, every contact in the list that
  \<open>getContacts\<close> returns, on the cached path, after any acquisition stage and in the
  outer \<open>catch\<close>, satisfies the validity condition (name other than
  \<open>Unknown Contact\<close>, or a non-empty email, phone or company); the normalized form
  of a RawRecord with no identifying field populated is never in that list.
\<close>

theorem getContacts_only_valid:
  assumes "reachable st"
    and "getContacts e st now forceRefresh = (Inr contacts, st', tr)
         \<or> (\<not> cache_hit st now forceRefresh
            \<and> getContacts_finish (Inl err, tr0) st now = (Inr contacts, st', tr))"
  shows "(\<forall>c \<in> set contacts. contact_valid c)
         \<and> (\<forall>raw. no_identifying raw \<longrightarrow> formatContact raw \<notin> set contacts)"
proof -
  have ok: "cache_ok st" using assms(1) by (rule reachable_cache_ok)
  have "list_all contact_valid contacts"
    using assms(2) getContacts_ok(2) [OF ok] finish_ok(2) [OF ok] by blast
  then have valid: "\<forall>c \<in> set contacts. contact_valid c"
    by (simp add: list_all_iff)
  moreover have "formatContact raw \<notin> set contacts" if "no_identifying raw" for raw
    using valid no_identifying_invalid [OF that] by blast
  ultimately show ?thesis by blast
qed

lemma getContacts_offline:
  "getContacts offline_env initial_state now False =
     (Inr (map formatContact loadLocalCSV),
      \<lparr> cachedContacts = Some (map formatContact loadLocalCSV), lastFetchTime = now \<rparr>,
      [EvFetch 1, EvSleep 1000, EvFetch 2, EvSleep 2000, EvFetch 3, EvDownloadAndCache,
       EvAlternativeFetch, EvProxyFetch, EvLoadLocal])"
proof -
  have miss: "\<not> cache_hit initial_state now False"
    by (simp add: cache_hit_def initial_state_def)
  have keep: "filter contact_valid (map formatContact loadLocalCSV) = map formatContact loadLocalCSV"
    using sample_valid by (simp add: filter_id_conv del: set_map)
  have upd: "initial_state\<lparr> cachedContacts := Some cs, lastFetchTime := now \<rparr>
      = \<lparr> cachedContacts = Some cs, lastFetchTime = now \<rparr>" for cs
    by (simp add: initial_state_def)
  show ?thesis
    by (simp add: getContacts_def miss try_offline getContacts_finish_def keep upd Let_def
        del: One_nat_def)
qed

theorem getContacts_only_valid_witness:
  "reachable initial_state
   \<and> fst (getContacts offline_env initial_state 0 False) = Inr (map formatContact loadLocalCSV)
   \<and> list_all contact_valid (map formatContact loadLocalCSV)
   \<and> no_identifying [(''Notes'', ''call back'')]
   \<and> formatContact [(''Notes'', ''call back'')] \<notin> set (map formatContact loadLocalCSV)"
proof -
  have r: "reachable initial_state" by (rule reachable.start)
  have g: "getContacts offline_env initial_state 0 False =
     (Inr (map formatContact loadLocalCSV),
      \<lparr> cachedContacts = Some (map formatContact loadLocalCSV), lastFetchTime = 0 \<rparr>,
      [EvFetch 1, EvSleep 1000, EvFetch 2, EvSleep 2000, EvFetch 3, EvDownloadAndCache,
       EvAlternativeFetch, EvProxyFetch, EvLoadLocal])"
    by (rule getContacts_offline)
  have n: "no_identifying [(''Notes'', ''call back'')]"
    by (simp add: no_identifying_def identifying_aliases_def)
  from getContacts_only_valid [OF r disjI1, OF g]
  have "(\<forall>c \<in> set (map formatContact loadLocalCSV). contact_valid c)
     \<and> (\<forall>raw. no_identifying raw \<longrightarrow> formatContact raw \<notin> set (map formatContact loadLocalCSV))" .
  with n have "list_all contact_valid (map formatContact loadLocalCSV)"
    and "formatContact [(''Notes'', ''call back'')] \<notin> set (map formatContact loadLocalCSV)"
    by (simp_all add: list_all_iff del: set_map)
  with r g n show ?thesis by simp
qed

text \<open>
  Claim C4. When a snapshot exists and is younger than \<open>CACHE_DURATION\<close> at both
  calls, two consecutive calls \<open>getContacts(false)\<close> return the cached list both
  times, leave the state as it was and cause no event (no request, no parse),
  whatever the environment.
\<close>

theorem getContacts_idempotent:
  assumes "cachedContacts st = Some cached"
    and "now1 - lastFetchTime st < CACHE_DURATION"
    and "now2 - lastFetchTime st < CACHE_DURATION"
  shows "getContacts e1 st now1 False = (Inr cached, st, [])
         \<and> getContacts e2 (fst (snd (getContacts e1 st now1 False))) now2 False = (Inr cached, st, [])"
  using assms by (simp add: getContacts_def cache_hit_def)

theorem getContacts_idempotent_witness:
  "getContacts offline_env \<lparr> cachedContacts = Some [john], lastFetchTime = 1000 \<rparr> 2000 False
     = (Inr [john], \<lparr> cachedContacts = Some [john], lastFetchTime = 1000 \<rparr>, [])
   \<and> getContacts server_error_env
       (fst (snd (getContacts offline_env \<lparr> cachedContacts = Some [john], lastFetchTime = 1000 \<rparr> 2000 False)))
       300999 False
     = (Inr [john], \<lparr> cachedContacts = Some [john], lastFetchTime = 1000 \<rparr>, [])"
  by (rule getContacts_idempotent) (simp_all add: CACHE_DURATION_def)

text \<open>
  Claim C10. When a call is not served from the snapshot and the body of its \<open>try\<close>
  yields records at any stage (the sample data stage included), \<open>getContacts\<close>
  stores the filtered, normalized list with the time \<open>now\<close> of the call, and every
  later \<open>getContacts(false)\<close> less than \<open>CACHE_DURATION\<close> after \<open>now\<close> returns that
  list with no event at all, in any environment.
\<close>

theorem getContacts_stores_snapshot:
  assumes "\<not> cache_hit st now forceRefresh"
    and "getContacts_try e = (Inr raw, tr)"
    and "contacts = filter contact_valid (map formatContact raw)"
    and "st' = \<lparr> cachedContacts = Some contacts, lastFetchTime = now \<rparr>"
  shows "getContacts e st now forceRefresh = (Inr contacts, st', tr)
         \<and> (\<forall>e' now'. now' - now < CACHE_DURATION \<longrightarrow>
               getContacts e' st' now' False = (Inr contacts, st', []))"
proof -
  have upd: "st\<lparr> cachedContacts := Some contacts, lastFetchTime := now \<rparr> = st'"
    using assms(4) by (cases st) simp
  have first: "getContacts e st now forceRefresh = (Inr contacts, st', tr)"
    using assms(1,2,3) upd by (simp add: getContacts_def getContacts_finish_def Let_def)
  have later: "getContacts e' st' now' False = (Inr contacts, st', [])"
    if "now' - now < CACHE_DURATION" for e' now'
    using that assms(4) by (simp add: getContacts_def cache_hit_def)
  from first later show ?thesis by blast
qed

theorem getContacts_stores_snapshot_witness:
  "\<not> cache_hit initial_state 5000 False
   \<and> getContacts_try offline_env = (Inr loadLocalCSV,
        [EvFetch 1, EvSleep 1000, EvFetch 2, EvSleep 2000, EvFetch 3, EvDownloadAndCache,
         EvAlternativeFetch, EvProxyFetch, EvLoadLocal])
   \<and> fst (getContacts offline_env initial_state 5000 False) = Inr (map formatContact loadLocalCSV)
   \<and> getContacts server_error_env
        \<lparr> cachedContacts = Some (map formatContact loadLocalCSV), lastFetchTime = 5000 \<rparr>
        304999 False
      = (Inr (map formatContact loadLocalCSV),
         \<lparr> cachedContacts = Some (map formatContact loadLocalCSV), lastFetchTime = 5000 \<rparr>, [])"
proof -
  have miss: "\<not> cache_hit initial_state 5000 False"
    by (simp add: cache_hit_def initial_state_def)
  have keep: "map formatContact loadLocalCSV = filter contact_valid (map formatContact loadLocalCSV)"
    using sample_valid by (simp add: filter_id_conv del: set_map)
  note w = getContacts_stores_snapshot [OF miss try_offline keep refl]
  from w have "getContacts server_error_env
        \<lparr> cachedContacts = Some (map formatContact loadLocalCSV), lastFetchTime = 5000 \<rparr>
        304999 False
      = (Inr (map formatContact loadLocalCSV),
         \<lparr> cachedContacts = Some (map formatContact loadLocalCSV), lastFetchTime = 5000 \<rparr>, [])"
    by (simp add: CACHE_DURATION_def)
  moreover from w have "fst (getContacts offline_env initial_state 5000 False) = Inr (map formatContact loadLocalCSV)"
    by simp
  ultimately show ?thesis using miss try_offline by simp
qed

section \<open>Properties of the Network Fetcher\<close>

lemma fetch_attempt_500:
  "fetch_primary e n = HttpResponse 500 body \<Longrightarrow> fetch_attempt e n = Inl (HttpError 500)"
  by (simp add: fetch_attempt_def response_ok_def)

text \<open>
  Claim C9, amended. When every attempt is answered with status 500,
  \<open>fetchCSVFromURL\<close> throws its terminal error after exactly three attempts; it waits
  \<open>attempt * 1000\<close> milliseconds after the first and after the second attempt (1000,
  then 2000) and not after the third, so the waits add up to \<open>1 + 2\<close> base units.
\<close>

theorem fetchCSVFromURL_server_errors:
  assumes "\<forall>attempt. \<exists>body. fetch_primary e attempt = HttpResponse 500 body"
  shows "fetchCSVFromURL e 1 =
           (Inl (FetchExhausted 3 (HttpError 500)),
            [EvFetch 1, EvSleep (1 * 1000), EvFetch 2, EvSleep (2 * 1000), EvFetch 3])
         \<and> attempts (snd (fetchCSVFromURL e 1)) = 3
         \<and> sleeps (snd (fetchCSVFromURL e 1)) = [1 * 1000, 2 * 1000]
         \<and> total_backoff (snd (fetchCSVFromURL e 1)) = (1 + 2) * 1000"
proof -
  have "fetch_attempt e n = Inl (HttpError 500)" for n
    using assms fetch_attempt_500 by blast
  then have "fetchCSVFromURL e 1 =
      (Inl (FetchExhausted 3 (HttpError 500)), [EvFetch 1, EvSleep 1000, EvFetch 2, EvSleep 2000, EvFetch 3])"
    by (rule fetchCSVFromURL_all_fail)
  then show ?thesis by simp
qed

lemma server_error_env_500: "fetch_primary server_error_env attempt = HttpResponse 500 ''Internal Server Error''"
  by (simp add: server_error_env_def offline_env_def)

theorem fetchCSVFromURL_server_errors_witness:
  "fetch_primary server_error_env 1 = HttpResponse 500 ''Internal Server Error''
   \<and> fst (fetchCSVFromURL server_error_env 1) = Inl (FetchExhausted 3 (HttpError 500))
   \<and> attempts (snd (fetchCSVFromURL server_error_env 1)) = 3
   \<and> total_backoff (snd (fetchCSVFromURL server_error_env 1)) = 3000"
proof -
  have "\<forall>attempt. \<exists>body. fetch_primary server_error_env attempt = HttpResponse 500 body"
    using server_error_env_500 by blast
  from fetchCSVFromURL_server_errors [OF this] show ?thesis
    by (simp add: server_error_env_500)
qed

text \<open>
  Claim C9 as stated asks for a total wait of at least \<open>1 + 2 + 3\<close> base units;
  with status 500 on every attempt the waits add up to 3000 milliseconds only.
\<close>

theorem backoff_total_counterexample:
  "\<not> (1 + 2 + 3) * 1000 \<le> total_backoff (snd (fetchCSVFromURL server_error_env 1))"
proof -
  have "fetchCSVFromURL server_error_env 1 =
      (Inl (FetchExhausted 3 (HttpError 500)), [EvFetch 1, EvSleep 1000, EvFetch 2, EvSleep 2000, EvFetch 3])"
    by (rule fetchCSVFromURL_all_fail) (simp add: fetch_attempt_500 server_error_env_500)
  then show ?thesis by simp
qed

section \<open>Properties of the Structured Parser\<close>

lemma trim_Nil: "trim [] = []"
  by (simp add: trim_def)

lemma keys_card: "length (keys raw) = card (fst ` set raw)"
  by (simp add: keys_def length_remdups_card_conv)

lemma hasField_iff: "hasField raw k \<longleftrightarrow> (\<exists>v. map_of raw k = Some v \<and> trim v \<noteq> [])"
  by (auto simp: hasField_def trim_Nil split: option.splits)

lemma truthy_iff: "truthy x \<longleftrightarrow> (\<exists>v. x = Some v \<and> v \<noteq> [])"
  by (cases x) auto

text \<open>
  Claim C7, amended. The acceptance test of the library strategies holds if and only
  if the record has more than one field (populated or not) and one of the four fields
  \<open>Name\<close>, \<open>Email\<close>, \<open>Phone\<close>, \<open>Company_name\<close>, under exactly that spelling, has a
  value that is not empty after trimming; the test of the manual strategy holds if and
  only if one of those four fields has a non-empty value.
\<close>

theorem acceptance_tests_exact:
  "(validContact raw \<longleftrightarrow>
      (1 < card (fst ` set raw)
       \<and> (\<exists>k \<in> set acceptance_keys. \<exists>v. map_of raw k = Some v \<and> trim v \<noteq> [])))
   \<and> (manual_accept raw \<longleftrightarrow>
      (\<exists>k \<in> set acceptance_keys. \<exists>v. map_of raw k = Some v \<and> v \<noteq> []))"
  by (simp add: validContact_def manual_accept_def keys_card hasField_iff truthy_iff
      acceptance_keys_def)

theorem acceptance_tests_exact_witness:
  "validContact half_empty_row \<and> manual_accept half_empty_row
   \<and> card (fst ` set half_empty_row) = 2 \<and> \<not> validContact lowercase_row
   \<and> \<not> manual_accept lowercase_row"
proof -
  have c: "card (fst ` set half_empty_row) = 2"
    by (simp add: half_empty_row_def)
  have n: "map_of half_empty_row ''Name'' = Some ''John Doe''" "trim ''John Doe'' \<noteq> []"
    "''Name'' \<in> set acceptance_keys"
    by (simp_all add: half_empty_row_def trim_def is_space_def acceptance_keys_def)
  have l: "\<forall>k \<in> set acceptance_keys. map_of lowercase_row k = None"
    by (simp add: acceptance_keys_def lowercase_row_def)
  from acceptance_tests_exact [of half_empty_row] c n
  have "validContact half_empty_row" "manual_accept half_empty_row"
    by auto
  moreover from acceptance_tests_exact [of lowercase_row] l
  have "\<not> validContact lowercase_row" "\<not> manual_accept lowercase_row"
    by auto
  ultimately show ?thesis using c by simp
qed

text \<open>
  Claim C7 as stated fails in both directions: a record with a populated \<open>name\<close> and
  \<open>email\<close> (aliases the Normalizer knows) is not accepted, and a record with a name
  and an empty second field is accepted though one field only is populated.
\<close>

theorem acceptance_counterexample:
  "spec_acceptance lowercase_row \<and> \<not> validContact lowercase_row \<and> \<not> manual_accept lowercase_row
   \<and> validContact half_empty_row \<and> manual_accept half_empty_row \<and> \<not> spec_acceptance half_empty_row"
  by code_simp

text \<open>
  The parser throws exactly when both library strategies fail and the text has fewer
  than two lines; when both fail on a longer text, the result is whatever the manual
  strategy collected.
\<close>

lemma parseCSVWithFallbacks_fails_iff:
  "(\<exists>err. parseCSVWithFallbacks p csvText = Inl err) \<longleftrightarrow>
     (papa_strategy_fails p EnhancedStandard csvText \<and> papa_strategy_fails p Relaxed csvText
      \<and> length (split_on newline csvText) < 2)"
  by (auto simp: parseCSVWithFallbacks_def strategies_def papa_strategy_fails_def
      manualCSVParse_def Let_def split: papa_outcome.splits)

lemma parseCSVWithFallbacks_manual:
  "papa_strategy_fails p EnhancedStandard csvText \<Longrightarrow> papa_strategy_fails p Relaxed csvText
   \<Longrightarrow> 2 \<le> length (split_on newline csvText)
   \<Longrightarrow> parseCSVWithFallbacks p csvText = Inr (manual_rows (manual_headers csvText) (tl (split_on newline csvText)))"
  by (auto simp: parseCSVWithFallbacks_def strategies_def papa_strategy_fails_def
      manualCSVParse_def Let_def split: papa_outcome.splits)

text \<open>
  Claim C6. The claim says that a strategy with zero valid records counts as failed
  and that the parser never returns successfully with zero valid records. On a feed
  whose headers are lower-case, both library strategies are rejected for having no
  valid contact, and the manual strategy then returns the empty list as a success.
\<close>

theorem parse_returns_no_records:
  "parseCSVWithFallbacks papa_lowercase lowercase_feed = Inr []"
  by (simp add: parseCSVWithFallbacks_def strategies_def papa_lowercase_def lowercase_row_def
      validContact_def hasField_def keys_def)
     code_simp

section \<open>Properties of the Line-Level Parser\<close>

lemma manual_rows_filter:
  "manual_rows headers ls =
     filter manual_accept
       (map (\<lambda>l. build_contact headers (tokenize (trim l) [] [] False))
         (filter (\<lambda>l. trim l \<noteq> []) ls))"
  by (induction ls) (simp_all add: Let_def)

lemma fold_skip_proto:
  "fold (\<lambda>(h, v) contact. if h = ''__proto__'' then contact else AList.update h v contact) ps acc
     = fold (\<lambda>(h, v). AList.update h v) (filter (\<lambda>(h, v). h \<noteq> ''__proto__'') ps) acc"
  by (induction ps arbitrary: acc) (auto split: prod.splits)

lemma build_contact_fold:
  "build_contact headers values =
     fold (\<lambda>(h, v). AList.update h v)
       (filter (\<lambda>(h, v). h \<noteq> ''__proto__'') (zip headers values)) []"
proof -
  have "build_contact headers values =
      fold (\<lambda>(h, v) contact. if h = ''__proto__'' then contact else AList.update h v contact)
        (zip headers values) []"
    by (simp add: build_contact_def cong: if_cong)
  then show ?thesis by (simp only: fold_skip_proto)
qed

lemma fold_update_map_of:
  "map_of (fold (\<lambda>(h, v). AList.update h v) ps acc) = map_of acc ++ map_of (rev ps)"
proof (induction ps arbitrary: acc)
  case Nil
  show ?case by simp
next
  case (Cons p ps)
  obtain h v where p: "p = (h, v)" by (cases p)
  have "map_of (AList.update h v acc) ++ map_of (rev ps)
      = map_of acc ++ (map_of [(h, v)] ++ map_of (rev ps))"
    by (rule ext) (simp add: update_conv' map_add_def split: option.splits)
  then show ?case
    using Cons.IH [of "AList.update h v acc"] by (simp add: p)
qed

lemma build_contact_map_of:
  "map_of (build_contact headers values)
     = map_of (rev (filter (\<lambda>(h, v). h \<noteq> ''__proto__'') (zip headers values)))"
  by (simp add: build_contact_fold fold_update_map_of)

lemma fold_update_keys:
  "fst ` set (fold (\<lambda>(h, v). AList.update h v) ps acc) = fst ` set acc \<union> fst ` set ps"
  by (induction ps arbitrary: acc) (auto simp: dom_update split: prod.splits)

lemma filter_key_set:
  "fst ` set (filter (\<lambda>(h, v). h \<noteq> k) ps) = fst ` set ps - {k}"
  by force

lemma build_contact_keys:
  "fst ` set (build_contact headers values)
     = set (take (length values) headers) - {''__proto__''}"
proof -
  have "fst ` set (zip headers values) = set (map fst (zip headers values))" by simp
  also have "\<dots> = set (take (length values) headers)"
    by (simp only: map_fst_zip_take) (simp add: min_def)
  finally have zip_keys: "fst ` set (zip headers values) = set (take (length values) headers)" .
  have "fst ` set (build_contact headers values)
      = fst ` set (filter (\<lambda>(h, v). h \<noteq> ''__proto__'') (zip headers values))"
    by (simp only: build_contact_fold fold_update_keys) simp
  also have "\<dots> = fst ` set (zip headers values) - {''__proto__''}"
    by (rule filter_key_set)
  finally show ?thesis
    by (simp only: zip_keys)
qed

lemma build_contact_lookup:
  assumes "distinct headers" "k < length headers"
  shows "map_of (build_contact headers values) (headers ! k)
           = (if k < length values \<and> headers ! k \<noteq> ''__proto__'' then Some (values ! k)
              else None)"
proof (cases "k < length values \<and> headers ! k \<noteq> ''__proto__''")
  case True
  let ?ps = "filter (\<lambda>(h, v). h \<noteq> ''__proto__'') (zip headers values)"
  have "distinct (map fst (zip headers values))"
    using assms(1) by (simp add: map_fst_zip_take)
  then have "distinct (map fst ?ps)"
    by (rule distinct_map_filter)
  then have d: "distinct (map fst (rev ?ps))"
    by (simp add: rev_map [symmetric])
  have "(headers ! k, values ! k) \<in> set (zip headers values)"
    using True assms(2) by (auto simp: set_zip)
  with True have "(headers ! k, values ! k) \<in> set (rev ?ps)"
    by simp
  with d have "map_of (rev ?ps) (headers ! k) = Some (values ! k)"
    by (simp only: map_of_eq_Some_iff)
  with True show ?thesis by (simp add: build_contact_map_of)
next
  case False
  have "headers ! k \<notin> set (take (length values) headers) - {''__proto__''}"
  proof
    assume in_keys: "headers ! k \<in> set (take (length values) headers) - {''__proto__''}"
    then obtain i where i: "i < length values" "i < length headers" "headers ! i = headers ! k"
      by (auto simp: in_set_conv_nth)
    with assms have "i = k" by (simp add: nth_eq_iff_index_eq)
    with i in_keys False show False by simp
  qed
  then have "map_of (build_contact headers values) (headers ! k) = None"
    by (simp add: map_of_eq_None_iff build_contact_keys)
  with False show ?thesis by simp
qed

text \<open>
  Claim C8, amended. On a text of at least two lines the manual parser builds one
  record for every non-blank data line and keeps those with an identifying field. The
  record pairs header and value by position, a later duplicate of a header replacing
  the earlier value, and a header \<open>__proto__\<close> storing nothing; its keys are the
  first \<open>length values\<close> headers, so values beyond the header count are dropped, and a
  header position with no value on the line is left out of the record (it is not
  mapped to the empty string).
\<close>

theorem manualCSVParse_zips_lines:
  "(2 \<le> length (split_on newline csvText) \<longrightarrow>
      manualCSVParse csvText =
        Inr (filter manual_accept
              (map (\<lambda>l. build_contact (manual_headers csvText) (tokenize (trim l) [] [] False))
                (filter (\<lambda>l. trim l \<noteq> []) (tl (split_on newline csvText))))))
   \<and> map_of (build_contact headers values)
       = map_of (rev (filter (\<lambda>(h, v). h \<noteq> ''__proto__'') (zip headers values)))
   \<and> fst ` set (build_contact headers values)
       = set (take (length values) headers) - {''__proto__''}
   \<and> (distinct headers \<longrightarrow>
        (\<forall>k < length headers.
           map_of (build_contact headers values) (headers ! k)
             = (if k < length values \<and> headers ! k \<noteq> ''__proto__'' then Some (values ! k)
                else None)))"
  using build_contact_map_of build_contact_keys build_contact_lookup
  by (simp add: manualCSVParse_def manual_rows_filter Let_def)

text \<open>
  Claim C8 as stated has the header with no value mapped to the empty string; on a
  data line with one value under two headers the record has no \<open>Email\<close> field at all.
\<close>

theorem missing_value_counterexample:
  "manual_headers short_line_feed = [''Name'', ''Email'']
   \<and> manualCSVParse short_line_feed = Inr [[(''Name'', ''John Doe'')]]
   \<and> map_of [(''Name'', ''John Doe'')] ''Email'' \<noteq> Some []"
proof -
  have "manual_headers short_line_feed = [''Name'', ''Email'']"
    by code_simp
  moreover have "manualCSVParse short_line_feed = Inr [[(''Name'', ''John Doe'')]]"
    by code_simp
  ultimately show ?thesis by simp
qed

theorem manualCSVParse_zips_lines_witness:
  "2 \<le> length (split_on newline short_line_feed)
   \<and> distinct [''Name'', ''Email'']
   \<and> manualCSVParse short_line_feed =
        Inr (filter manual_accept
              (map (\<lambda>l. build_contact (manual_headers short_line_feed) (tokenize (trim l) [] [] False))
                (filter (\<lambda>l. trim l \<noteq> []) (tl (split_on newline short_line_feed)))))
   \<and> map_of (build_contact [''Name'', ''Email''] [''John Doe'']) ''Name'' = Some ''John Doe''
   \<and> map_of (build_contact [''Name'', ''Email''] [''John Doe'']) ''Email'' = None"
proof -
  have two: "2 \<le> length (split_on newline short_line_feed)"
    by (simp add: short_line_feed_def newline_def)
  have d: "distinct [''Name'', ''Email'']" by simp
  note w = manualCSVParse_zips_lines [of short_line_feed "[''Name'', ''Email'']" "[''John Doe'']"]
  from w two have p: "manualCSVParse short_line_feed =
        Inr (filter manual_accept
              (map (\<lambda>l. build_contact (manual_headers short_line_feed) (tokenize (trim l) [] [] False))
                (filter (\<lambda>l. trim l \<noteq> []) (tl (split_on newline short_line_feed)))))"
    by blast
  from w d have l: "\<forall>k < length [''Name'', ''Email''].
           map_of (build_contact [''Name'', ''Email''] [''John Doe'']) ([''Name'', ''Email''] ! k)
             = (if k < length [''John Doe''] \<and> [''Name'', ''Email''] ! k \<noteq> ''__proto__''
                then Some ([''John Doe''] ! k) else None)"
    by blast
  from l [THEN spec, of 0]
  have n: "map_of (build_contact [''Name'', ''Email''] [''John Doe'']) ''Name'' = Some ''John Doe''"
    by simp
  from l [THEN spec, of 1]
  have e: "map_of (build_contact [''Name'', ''Email''] [''John Doe'']) ''Email'' = None"
    by simp
  from two d p n e show ?thesis by blast
qed

section \<open>Export and re-ingestion\<close>

lemma js_or_nonempty: "d \<noteq> [] \<Longrightarrow> js_or x d \<noteq> []"
  by (cases x) auto

lemma getName_nonempty: "getName raw \<noteq> []"
  by (simp add: getName_def js_or_nonempty)

lemma formatPhone_idem: "formatPhone (formatPhone phone) = formatPhone phone"
proof (cases "length (filter is_digit phone) = 10")
  case True
  have ne: "phone \<noteq> []" using True by auto
  let ?c = "filter is_digit phone"
  let ?f = "''('' @ take 3 ?c @ '') '' @ take 3 (drop 3 ?c) @ ''-'' @ drop 6 ?c"
  have f: "formatPhone phone = ?f"
    using True ne by (simp add: formatPhone_def Let_def)
  have "filter is_digit (formatPhone phone) = ?c"
    using True by (rule formatPhone_ten_digits(2))
  then have c: "filter is_digit ?f = ?c" by (simp only: f)
  have "formatPhone ?f = ?f"
    unfolding formatPhone_def [of ?f] c using True by (simp add: Let_def)
  then show ?thesis by (simp only: f)
next
  case False
  then show ?thesis by (simp add: formatPhone_other_count)
qed

lemma getPhone_fixed: "formatPhone (getPhone raw) = getPhone raw"
  by (simp add: getPhone_def formatPhone_idem)

lemma export_normalize:
  "same_exported_fields (formatContact (export_row (formatContact raw))) (formatContact raw)"
  apply (simp add: same_exported_fields_def formatContact_def export_row_def)
  apply (simp add: getName_def [of "_ # _"] getCompany_def [of "_ # _"] getEmail_def [of "_ # _"]
      getPhone_def [of "_ # _"] getAddress_def [of "_ # _"] getCity_def [of "_ # _"]
      getState_def [of "_ # _"] getCountry_def [of "_ # _"] getBalance_def [of "_ # _"])
  apply (simp add: getName_nonempty getPhone_fixed)
  done

lemma keys_set: "set (keys raw) = fst ` set raw"
  by (simp add: keys_def)

lemma lookup_outside: "k \<notin> fst ` set raw \<Longrightarrow> map_of raw k = None"
  by (simp add: map_of_eq_None_iff)

lemma export_columns_no_acceptance_key:
  "''Name'' \<notin> set export_columns" "''Email'' \<notin> set export_columns"
  "''Phone'' \<notin> set export_columns" "''Company_name'' \<notin> set export_columns"
  by (simp_all add: export_columns_def)

lemma export_keyed_rejected:
  assumes "fst ` set raw \<subseteq> set export_columns"
  shows "\<not> validContact raw" and "\<not> manual_accept raw"
proof -
  have "map_of raw ''Name'' = None" "map_of raw ''Email'' = None"
    "map_of raw ''Phone'' = None" "map_of raw ''Company_name'' = None"
    using assms export_columns_no_acceptance_key by (auto intro!: lookup_outside)
  then show "\<not> validContact raw" and "\<not> manual_accept raw"
    by (simp_all add: validContact_def hasField_def manual_accept_def)
qed

lemma export_row_keys: "map fst (export_row c) = export_columns"
  by (simp add: export_row_def export_columns_def)

lemma export_row_key_set: "fst ` set (export_row c) = set export_columns"
  using export_row_keys [of c] by (metis list.set_map)

lemma export_row_rejected: "\<not> validContact (export_row c)" "\<not> manual_accept (export_row c)"
proof -
  have "fst ` set (export_row c) \<subseteq> set export_columns"
    by (simp only: export_row_key_set)
  then show "\<not> validContact (export_row c)" and "\<not> manual_accept (export_row c)"
    by (simp_all add: export_keyed_rejected)
qed

lemma manual_rows_export_headers:
  assumes "set headers \<subseteq> set export_columns"
  shows "manual_rows headers ls = []"
proof -
  have "\<not> manual_accept (build_contact headers vs)" for vs
  proof (rule export_keyed_rejected(2))
    show "fst ` set (build_contact headers vs) \<subseteq> set export_columns"
      using assms set_take_subset [of "length vs" headers]
      unfolding build_contact_keys by blast
  qed
  then show ?thesis
    by (simp add: manual_rows_filter)
qed

lemma manualCSVParse_export_headers:
  assumes "set (manual_headers csvText) \<subseteq> set export_columns"
  shows "manualCSVParse csvText =
           (if 2 \<le> length (split_on newline csvText) then Inr [] else Inl InsufficientLines)"
  using manual_rows_export_headers [OF assms]
  by (simp add: manualCSVParse_def Let_def)

lemma papa_strategy_fails_export:
  assumes "\<forall>rows. p s csvText = PapaComplete rows \<longrightarrow> (\<forall>r \<in> set rows. set (keys r) \<subseteq> set export_columns)"
  shows "papa_strategy_fails p s csvText"
proof (cases "p s csvText")
  case (PapaComplete rows)
  with assms have "\<forall>r \<in> set rows. \<not> validContact r"
    using export_keyed_rejected(1) by (simp add: keys_set)
  then have "filter validContact rows = []"
    by (simp add: filter_empty_conv)
  with PapaComplete show ?thesis by (simp add: papa_strategy_fails_def)
next
  case PapaFailed
  then show ?thesis by (simp add: papa_strategy_fails_def)
qed

lemma papa_strategy_skipped:
  assumes "papa_strategy_fails p s csvText" and "s \<noteq> Manual"
  shows "try_strategies p csvText (s # ss) = try_strategies p csvText ss"
  using assms by (auto simp: papa_strategy_fails_def split: papa_outcome.splits)

lemma parse_export:
  assumes "set (manual_headers csvText) \<subseteq> set export_columns"
    and "\<forall>s rows. p s csvText = PapaComplete rows \<longrightarrow> (\<forall>r \<in> set rows. set (keys r) \<subseteq> set export_columns)"
  shows "parseCSVWithFallbacks p csvText =
           (if 2 \<le> length (split_on newline csvText) then Inr [] else Inl AllStrategiesFailed)"
proof -
  have fails: "papa_strategy_fails p s csvText" for s
    using assms(2) by (intro papa_strategy_fails_export) blast
  have "try_strategies p csvText [EnhancedStandard, Relaxed, Manual]
      = try_strategies p csvText [Relaxed, Manual]"
    by (rule papa_strategy_skipped [OF fails]) simp
  also have "\<dots> = try_strategies p csvText [Manual]"
    by (rule papa_strategy_skipped [OF fails]) simp
  finally have "parseCSVWithFallbacks p csvText = try_strategies p csvText [Manual]"
    by (simp add: parseCSVWithFallbacks_def strategies_def)
  then show ?thesis
    by (simp add: manualCSVParse_export_headers [OF assms(1)])
qed

text \<open>
  Claim C5, amended. For every contact the Normalizer produces, the Normalizer applied
  to its exported row (the ten columns \<open>name\<close>, \<open>company\<close>, \<open>email\<close>, \<open>phone\<close>,
  \<open>address\<close>, \<open>city\<close>, \<open>state\<close>, \<open>country\<close>, \<open>zip\<close>, \<open>balance\<close>) gives a contact
  equal to it on those ten fields, with the \<open>id\<close> derived from name and email. The
  Structured Parser accepts no exported row, in any strategy: on a text under the
  export's header, which the library reads as rows keyed by that header, both library
  strategies fail and the manual strategy collects no record, so re-ingestion gives back
  none of the contacts. (What the parser then reports is the empty list from two lines
  up, the parse error below.)
\<close>

theorem export_reingest:
  "same_exported_fields (formatContact (export_row (formatContact raw))) (formatContact raw)
   \<and> c_id (formatContact (export_row (formatContact raw)))
       = replace_spaces (c_name (formatContact raw) @ ''_'' @ c_email (formatContact raw))
   \<and> \<not> validContact (export_row c) \<and> \<not> manual_accept (export_row c)
   \<and> (set (manual_headers csvText) \<subseteq> set export_columns
       \<and> (\<forall>s rows. p s csvText = PapaComplete rows
             \<longrightarrow> (\<forall>r \<in> set rows. set (keys r) \<subseteq> set export_columns))
       \<longrightarrow> papa_strategy_fails p EnhancedStandard csvText
           \<and> papa_strategy_fails p Relaxed csvText
           \<and> manual_rows (manual_headers csvText) (tl (split_on newline csvText)) = []
           \<and> reingest p csvText =
               (if 2 \<le> length (split_on newline csvText) then Inr []
                else Inl AllStrategiesFailed))"
proof -
  have "papa_strategy_fails p EnhancedStandard csvText
           \<and> papa_strategy_fails p Relaxed csvText
           \<and> manual_rows (manual_headers csvText) (tl (split_on newline csvText)) = []
           \<and> reingest p csvText =
               (if 2 \<le> length (split_on newline csvText) then Inr []
                else Inl AllStrategiesFailed)"
    if h: "set (manual_headers csvText) \<subseteq> set export_columns"
      and r: "\<forall>s rows. p s csvText = PapaComplete rows
             \<longrightarrow> (\<forall>r \<in> set rows. set (keys r) \<subseteq> set export_columns)"
  proof -
    have fails: "papa_strategy_fails p s csvText" for s
      using r by (intro papa_strategy_fails_export) blast
    have "reingest p csvText =
               (if 2 \<le> length (split_on newline csvText) then Inr []
                else Inl AllStrategiesFailed)"
      using h r by (simp add: reingest_def parse_export [of csvText p])
    with fails manual_rows_export_headers [OF h] show ?thesis by blast
  qed
  moreover have "c_id (formatContact (export_row (formatContact raw)))
       = replace_spaces (c_name (formatContact raw) @ ''_'' @ c_email (formatContact raw))"
    using export_normalize [of raw]
    by (simp add: same_exported_fields_def) (simp add: formatContact_def export_row_def)
  ultimately show ?thesis
    using export_normalize export_row_rejected by blast
qed

lemma export_john_headers: "manual_headers (exportContacts_csv csv_unparse [john]) = export_columns"
  by code_simp

lemma export_john_text:
  "exportContacts_csv csv_unparse [john] =
     ''name,company,email,phone,address,city,state,country,zip,balance'' @ [CHR 0x0D, newline]
     @ ''John Doe,,john@x.com,,,,,,,''"
  by code_simp

lemma export_john_manual: "manualCSVParse (exportContacts_csv csv_unparse [john]) = Inr []"
  by code_simp

lemma john_valid: "contact_valid john"
  by (simp add: john_def contact_valid_def formatContact_def getName_def)

lemma papa_reads_export_keys:
  "\<forall>s rows. papa_reads_export s csvText = PapaComplete rows
     \<longrightarrow> (\<forall>r \<in> set rows. set (keys r) \<subseteq> set export_columns)"
  by (simp add: papa_reads_export_def keys_set export_row_key_set)

lemma reingest_export_john:
  "reingest papa_reads_export (exportContacts_csv csv_unparse [john]) = Inr []"
proof -
  have "filter validContact [export_row john] = []"
    by (simp add: export_row_rejected)
  then have "parseCSVWithFallbacks papa_reads_export (exportContacts_csv csv_unparse [john]) = Inr []"
    by (simp add: parseCSVWithFallbacks_def strategies_def papa_reads_export_def export_john_manual)
  then show ?thesis by (simp add: reingest_def)
qed

text \<open>
  Claim C5 as stated fails for one valid contact: its export, re-ingested, is the
  empty list.
\<close>

theorem roundtrip_counterexample:
  "list_all contact_valid [john]
   \<and> reingest papa_reads_export (exportContacts_csv csv_unparse [john]) = Inr []
   \<and> \<not> roundtrip_holds csv_unparse papa_reads_export [john]"
  by (simp add: john_valid reingest_export_john roundtrip_holds_def)

theorem export_reingest_witness:
  "set (manual_headers (exportContacts_csv csv_unparse [john])) \<subseteq> set export_columns
   \<and> papa_reads_export EnhancedStandard (exportContacts_csv csv_unparse [john])
       = PapaComplete [export_row john]
   \<and> set (keys (export_row john)) \<subseteq> set export_columns
   \<and> 2 \<le> length (split_on newline (exportContacts_csv csv_unparse [john]))
   \<and> same_exported_fields (formatContact (export_row john)) john
   \<and> \<not> validContact (export_row john)
   \<and> papa_strategy_fails papa_reads_export EnhancedStandard (exportContacts_csv csv_unparse [john])
   \<and> reingest papa_reads_export (exportContacts_csv csv_unparse [john]) = Inr []"
proof -
  have h: "set (manual_headers (exportContacts_csv csv_unparse [john])) \<subseteq> set export_columns"
    by (simp add: export_john_headers)
  have k: "set (keys (export_row john)) \<subseteq> set export_columns"
    by (simp add: keys_set export_row_key_set)
  have two: "2 \<le> length (split_on newline (exportContacts_csv csv_unparse [john]))"
    by (simp add: export_john_text newline_def)
  note w = export_reingest [of "[(''Name'', ''John Doe''), (''Email'', ''john@x.com'')]" john
      "exportContacts_csv csv_unparse [john]" papa_reads_export, folded john_def]
  from w have "same_exported_fields (formatContact (export_row john)) john"
    and "\<not> validContact (export_row john)"
    by blast+
  moreover from w h papa_reads_export_keys
  have "papa_strategy_fails papa_reads_export EnhancedStandard (exportContacts_csv csv_unparse [john])"
    and "reingest papa_reads_export (exportContacts_csv csv_unparse [john]) =
      (if 2 \<le> length (split_on newline (exportContacts_csv csv_unparse [john])) then Inr []
       else Inl AllStrategiesFailed)"
    by blast+
  ultimately show ?thesis
    using h k two by (simp add: papa_reads_export_def)
qed

end
